theory Spec2Isabelle
  imports Main "HOL-Library.Word"
begin

section \<open>The schema builder of \<^verbatim>\<open>redisearch/schema.go\<close>\<close>

subsection \<open>Data model\<close>

text \<open>
  \<^verbatim>\<open>type FieldType int\<close> with the four constants declared by \<^verbatim>\<open>iota\<close>, in the order
  of the source.
\<close>

datatype FieldType = TextField | NumericField | GeoField | TagField

text \<open>
  Go scalars that the file only stores and never computes with: a \<^verbatim>\<open>byte\<close> is an
  8-bit word, a \<^verbatim>\<open>float32\<close> is its 32-bit IEEE 754 pattern (\<^verbatim>\<open>2.0\<close> is
  \<^verbatim>\<open>0x40000000\<close>). A slice is \<open>None\<close> when it is \<^verbatim>\<open>nil\<close> and \<open>Some xs\<close> when it
  holds the elements \<open>xs\<close>; capacity and the identity of the backing array are not
  represented, so nothing below speaks about two slices that share storage.
\<close>

type_synonym byte = "8 word"
type_synonym float32 = "32 word"
type_synonym 'a slice = "'a list option"

text \<open>\<^verbatim>\<open>len(s)\<close> and \<^verbatim>\<open>s[i]\<close> see the elements of a slice; a nil slice has none.\<close>

fun elems :: "'a slice \<Rightarrow> 'a list" where
  "elems None = []"
| "elems (Some xs) = xs"

text \<open>The builtin \<^verbatim>\<open>append(s, x)\<close>: the result is never nil, also when \<open>s\<close> is.\<close>

definition append_go :: "'a slice \<Rightarrow> 'a \<Rightarrow> 'a slice" where
  "append_go s x = Some (elems s @ [x])"

record Options =
  NoSave :: bool
  NoFieldFlags :: bool
  NoFrequencies :: bool
  NoOffsetVectors :: bool
  Stopwords :: "string slice"

definition DefaultOptions :: Options where
  "DefaultOptions =
     \<lparr>NoSave = False, NoFieldFlags = False, NoFrequencies = False,
      NoOffsetVectors = False, Stopwords = None\<rparr>"

text \<open>
  The zero value of \<^verbatim>\<open>Options\<close>, which Go gives to a member that a composite literal
  leaves out.
\<close>

definition Options_zero :: Options where
  "Options_zero =
     \<lparr>NoSave = False, NoFieldFlags = False, NoFrequencies = False,
      NoOffsetVectors = False, Stopwords = None\<rparr>"

record TextFieldOptions =
  Weight :: float32
  Sortable :: bool
  NoStem :: bool
  NoIndex :: bool

record TagFieldOptions =
  Separator :: byte
  NoIndex :: bool
  Sortable :: bool

record NumericFieldOptions =
  Sortable :: bool
  NoIndex :: bool

text \<open>
  The member \<^verbatim>\<open>Options interface{}\<close> of a field holds \<^verbatim>\<open>nil\<close> or a value of any
  type. The three option structs of the package have a constructor each; a value of any
  other dynamic type is \<open>OtherValue\<close>, over a type \<open>'v\<close> that stays a parameter.
\<close>

datatype 'v iface =
    is_nil: nil
  | is_TextFieldOptions: TextFieldOptionsValue TextFieldOptions
  | is_TagFieldOptions: TagFieldOptionsValue TagFieldOptions
  | is_NumericFieldOptions: NumericFieldOptionsValue NumericFieldOptions
  | is_OtherValue: OtherValue 'v

record 'v Field =
  Name :: string
  Type :: FieldType
  Sortable :: bool
  Options :: "'v iface"

record 'v Schema =
  Fields :: "'v Field slice"
  Options :: Options

subsection \<open>Field constructors\<close>

text \<open>
  Members that a composite literal leaves out are written here with their zero value
  (\<open>False\<close>, \<open>nil\<close>).
\<close>

definition NewTextField :: "string \<Rightarrow> 'v Field" where
  "NewTextField name =
     \<lparr>Name = name, Type = TextField, Field.Sortable = False, Field.Options = nil\<rparr>"

definition NewTextFieldOptions :: "string \<Rightarrow> TextFieldOptions \<Rightarrow> 'v Field" where
  "NewTextFieldOptions name opts =
     (let f = NewTextField name in f\<lparr>Field.Options := TextFieldOptionsValue opts\<rparr>)"

definition NewSortableTextField :: "string \<Rightarrow> float32 \<Rightarrow> 'v Field" where
  "NewSortableTextField name weight =
     NewTextFieldOptions name
       \<lparr>Weight = weight, TextFieldOptions.Sortable = True, NoStem = False,
        TextFieldOptions.NoIndex = False\<rparr>"

definition NewTagField :: "string \<Rightarrow> 'v Field" where
  "NewTagField name =
     \<lparr>Name = name, Type = TagField, Field.Sortable = False,
      Field.Options = TagFieldOptionsValue
        \<lparr>Separator = of_char (CHR '',''), TagFieldOptions.NoIndex = False,
         TagFieldOptions.Sortable = False\<rparr>\<rparr>"

definition NewTagFieldOptions :: "string \<Rightarrow> TagFieldOptions \<Rightarrow> 'v Field" where
  "NewTagFieldOptions name opts =
     \<lparr>Name = name, Type = TagField, Field.Sortable = False,
      Field.Options = TagFieldOptionsValue opts\<rparr>"

definition NewNumericField :: "string \<Rightarrow> 'v Field" where
  "NewNumericField name =
     \<lparr>Name = name, Type = NumericField, Field.Sortable = False, Field.Options = nil\<rparr>"

definition NewNumericFieldOptions :: "string \<Rightarrow> NumericFieldOptions \<Rightarrow> 'v Field" where
  "NewNumericFieldOptions name options =
     (let f = NewNumericField name in f\<lparr>Field.Options := NumericFieldOptionsValue options\<rparr>)"

definition NewSortableNumericField :: "string \<Rightarrow> 'v Field" where
  "NewSortableNumericField name =
     (let f = NewNumericField name
      in f\<lparr>Field.Options := NumericFieldOptionsValue
             \<lparr>NumericFieldOptions.Sortable = True, NumericFieldOptions.NoIndex = False\<rparr>\<rparr>)"

subsection \<open>Schemas behind pointers\<close>

text \<open>
  \<^verbatim>\<open>NewSchema\<close> returns a \<^verbatim>\<open>*Schema\<close> and \<^verbatim>\<open>AddField\<close> writes through its receiver, so
  the schemas live in a store: the list of all schemas allocated so far, a pointer being
  \<^verbatim>\<open>nil\<close> or the position of its schema in that list. Go never frees an object that is
  still referenced, so a pointer of a running program is nil or below the length of the
  store; the second panic marks the addresses that no program can hold.
\<close>

datatype ptr = nilptr | Ptr nat

datatype panic = NilPointerDereference | InvalidAddress

type_synonym 'v heap = "'v Schema list"

definition NewSchema :: "'v heap \<Rightarrow> Options \<Rightarrow> 'v heap \<times> ptr" where
  "NewSchema h opts =
     (h @ [\<lparr>Fields = Some [], Schema.Options = Options_zero\<rparr>], Ptr (length h))"

text \<open>
  \<^verbatim>\<open>m.Fields\<close> dereferences the receiver first: a nil receiver panics before anything is
  written. Otherwise the schema at \<open>m\<close> is updated in place and \<open>m\<close> is returned.
\<close>

fun AddField :: "'v heap \<Rightarrow> ptr \<Rightarrow> 'v Field \<Rightarrow> panic + 'v heap \<times> ptr" where
  "AddField h nilptr f = Inl NilPointerDereference"
| "AddField h (Ptr a) f =
     (if a < length h then
        let s = h ! a;
            s1 = (if Fields s = None then s\<lparr>Fields := Some []\<rparr> else s);
            s2 = s1\<lparr>Fields := append_go (Fields s1) f\<rparr>
        in Inr (h[a := s2], Ptr a)
      else Inl InvalidAddress)"

text \<open>
  A chain \<^verbatim>\<open>s.AddField(f1).AddField(f2)...\<close> as a caller writes it: each call runs on the
  pointer that the call before returned, and a panic ends the chain.
\<close>

fun AddField_chain :: "'v heap \<Rightarrow> ptr \<Rightarrow> 'v Field list \<Rightarrow> panic + 'v heap \<times> ptr" where
  "AddField_chain h m [] = Inr (h, m)"
| "AddField_chain h m (f # fs) =
     (case AddField h m f of
        Inl e \<Rightarrow> Inl e
      | Inr (h', m') \<Rightarrow> AddField_chain h' m' fs)"

section \<open>Properties\<close>

subsection \<open>Shared facts\<close>

lemma AddField_valid:
  "a < length h \<Longrightarrow>
   AddField h (Ptr a) f =
     Inr (h[a := (h ! a)\<lparr>Fields := Some (elems (Fields (h ! a)) @ [f])\<rparr>], Ptr a)"
  by (cases "Fields (h ! a)") (simp_all add: append_go_def Let_def)

declare AddField.simps(2) [simp del]

lemma AddField_chain_valid:
  "a < length h \<Longrightarrow>
   AddField_chain h (Ptr a) fs =
     Inr (h[a := (h ! a)\<lparr>Fields := (if fs = [] then Fields (h ! a)
                                     else Some (elems (Fields (h ! a)) @ fs))\<rparr>], Ptr a)"
proof (induction fs arbitrary: h)
  case Nil
  then show ?case by simp
next
  case (Cons f fs)
  let ?h1 = "h[a := (h ! a)\<lparr>Fields := Some (elems (Fields (h ! a)) @ [f])\<rparr>]"
  have len: "a < length ?h1" using Cons.prems by simp
  have step: "AddField h (Ptr a) f = Inr (?h1, Ptr a)"
    using Cons.prems by (rule AddField_valid)
  show ?case
    using Cons.prems by (simp only: AddField_chain.simps step sum.case prod.case Cons.IH [OF len])
      (cases fs; simp)
qed

subsection \<open>NewSchema\<close>

text \<open>
  C1. For every store and every \<open>opts\<close>, \<open>NewSchema opts\<close> returns a pointer to a newly
  allocated schema whose \<open>Fields\<close> is the empty, non-nil slice and whose \<open>Options\<close> is the
  zero value of \<open>Options\<close> (every flag false, \<open>Stopwords\<close> nil), whatever \<open>opts\<close> is: the
  argument is not copied into the result.
\<close>

theorem NewSchema_ignores_opts:
  "snd (NewSchema h opts) = Ptr (length h) \<and>
   fst (NewSchema h opts) ! length h =
     \<lparr>Fields = Some [],
      Schema.Options = \<lparr>NoSave = False, NoFieldFlags = False, NoFrequencies = False,
                         NoOffsetVectors = False, Stopwords = None\<rparr>\<rparr> \<and>
   length (fst (NewSchema h opts)) = Suc (length h) \<and>
   take (length h) (fst (NewSchema h opts)) = h \<and>
   NewSchema h opts = NewSchema h opts'"
  by (simp add: NewSchema_def Options_zero_def)

subsection \<open>Field constructors\<close>

text \<open>
  C5. For every name, \<open>NewTagField name\<close> is a field of type \<open>TagField\<close> whose options
  are a \<open>TagFieldOptions\<close> with the separator byte \<^verbatim>\<open>','\<close> (\<^verbatim>\<open>0x2C\<close>) and \<open>NoIndex\<close>
  false.
\<close>

theorem NewTagField_defaults:
  "Type (NewTagField name) = TagField \<and>
   Field.Options (NewTagField name) =
     TagFieldOptionsValue
       \<lparr>Separator = 0x2C, TagFieldOptions.NoIndex = False,
        TagFieldOptions.Sortable = False\<rparr> \<and>
   (0x2C :: byte) = of_char (CHR '','')"
  by (simp add: NewTagField_def)

text \<open>
  C6. For every name and weight, \<open>NewSortableTextField name weight\<close> is a field of type
  \<open>TextField\<close> whose options are a \<open>TextFieldOptions\<close> with \<open>Weight\<close> the given weight
  and \<open>Sortable\<close> true; so it is for the name \<^verbatim>\<open>"title"\<close> and the weight \<^verbatim>\<open>2.0\<close>, whose
  bit pattern is \<^verbatim>\<open>0x40000000\<close>.
\<close>

theorem NewSortableTextField_options:
  "Type (NewSortableTextField name weight) = TextField \<and>
   Field.Options (NewSortableTextField name weight) =
     TextFieldOptionsValue
       \<lparr>Weight = weight, TextFieldOptions.Sortable = True, NoStem = False,
        TextFieldOptions.NoIndex = False\<rparr> \<and>
   Field.Options (NewSortableTextField ''title'' 0x40000000) =
     TextFieldOptionsValue
       \<lparr>Weight = 0x40000000, TextFieldOptions.Sortable = True, NoStem = False,
        TextFieldOptions.NoIndex = False\<rparr>"
  by (simp add: NewSortableTextField_def NewTextFieldOptions_def NewTextField_def)

text \<open>
  C7. For every name, \<open>NewSortableNumericField name\<close> is a field of type \<open>NumericField\<close>
  whose options are a \<open>NumericFieldOptions\<close> with \<open>Sortable\<close> true and \<open>NoIndex\<close> false.
\<close>

theorem NewSortableNumericField_options:
  "Type (NewSortableNumericField name) = NumericField \<and>
   Field.Options (NewSortableNumericField name) =
     NumericFieldOptionsValue
       \<lparr>NumericFieldOptions.Sortable = True, NumericFieldOptions.NoIndex = False\<rparr>"
  by (simp add: NewSortableNumericField_def NewNumericField_def)

text \<open>
  C10. The fields that \<open>NewSortableTextField\<close> and \<open>NewSortableNumericField\<close> return
  have their own member \<open>Sortable\<close> false, for every name and weight, while the
  \<open>Sortable\<close> of the options they hold is true: the two flags of one field disagree.
\<close>

theorem sortable_constructors_top_level_flag:
  "Field.Sortable (NewSortableTextField name weight) = False \<and>
   (\<exists>t. Field.Options (NewSortableTextField name weight) = TextFieldOptionsValue t \<and>
        TextFieldOptions.Sortable t = True) \<and>
   Field.Sortable (NewSortableNumericField name') = False \<and>
   (\<exists>n. Field.Options (NewSortableNumericField name') = NumericFieldOptionsValue n \<and>
        NumericFieldOptions.Sortable n = True)"
  by (simp add: NewSortableTextField_def NewTextFieldOptions_def NewTextField_def
        NewSortableNumericField_def NewNumericField_def)

subsection \<open>The options slot of every constructor\<close>

text \<open>
  C4 as it is written fails for the two plain constructors: \<open>NewTextField\<close> returns a
  field of type \<open>TextField\<close> whose options slot is nil, not a \<open>TextFieldOptions\<close> (and
  \<open>NewNumericField\<close> likewise).
\<close>

theorem NewTextField_options_nil:
  "Type (NewTextField ''body'' :: unit Field) = TextField \<and>
   Field.Options (NewTextField ''body'' :: unit Field) = nil \<and>
   \<not> is_TextFieldOptions (Field.Options (NewTextField ''body'' :: unit Field))"
  by (simp add: NewTextField_def)

text \<open>
  C4, as the code has it. Every field constructor returns a field with the given name and
  the \<open>FieldType\<close> of that constructor. The options slot is nil for \<open>NewTextField\<close> and
  \<open>NewNumericField\<close>; for the six others it holds the options struct of that type:
  the struct given by the caller for the three \<^verbatim>\<open>...Options\<close> constructors, the given
  weight with \<open>Sortable\<close> true and the other flags false for \<open>NewSortableTextField\<close>, the
  separator \<^verbatim>\<open>','\<close> with both flags false for \<open>NewTagField\<close>, and \<open>Sortable\<close> true with
  \<open>NoIndex\<close> false for \<open>NewSortableNumericField\<close>.
\<close>

theorem field_constructors_type_and_options:
  "(NewTextField name :: 'v Field) =
     \<lparr>Name = name, Type = TextField, Field.Sortable = False, Field.Options = nil\<rparr> \<and>
   (NewTextFieldOptions name topts :: 'v Field) =
     \<lparr>Name = name, Type = TextField, Field.Sortable = False,
      Field.Options = TextFieldOptionsValue topts\<rparr> \<and>
   (NewSortableTextField name weight :: 'v Field) =
     \<lparr>Name = name, Type = TextField, Field.Sortable = False,
      Field.Options = TextFieldOptionsValue
        \<lparr>Weight = weight, TextFieldOptions.Sortable = True, NoStem = False,
         TextFieldOptions.NoIndex = False\<rparr>\<rparr> \<and>
   (NewTagField name :: 'v Field) =
     \<lparr>Name = name, Type = TagField, Field.Sortable = False,
      Field.Options = TagFieldOptionsValue
        \<lparr>Separator = 0x2C, TagFieldOptions.NoIndex = False,
         TagFieldOptions.Sortable = False\<rparr>\<rparr> \<and>
   (NewTagFieldOptions name gopts :: 'v Field) =
     \<lparr>Name = name, Type = TagField, Field.Sortable = False,
      Field.Options = TagFieldOptionsValue gopts\<rparr> \<and>
   (NewNumericField name :: 'v Field) =
     \<lparr>Name = name, Type = NumericField, Field.Sortable = False, Field.Options = nil\<rparr> \<and>
   (NewNumericFieldOptions name nopts :: 'v Field) =
     \<lparr>Name = name, Type = NumericField, Field.Sortable = False,
      Field.Options = NumericFieldOptionsValue nopts\<rparr> \<and>
   (NewSortableNumericField name :: 'v Field) =
     \<lparr>Name = name, Type = NumericField, Field.Sortable = False,
      Field.Options = NumericFieldOptionsValue
        \<lparr>NumericFieldOptions.Sortable = True, NumericFieldOptions.NoIndex = False\<rparr>\<rparr>"
  by (simp add: NewTextField_def NewTextFieldOptions_def NewSortableTextField_def
        NewTagField_def NewTagFieldOptions_def NewNumericField_def
        NewNumericFieldOptions_def NewSortableNumericField_def)

subsection \<open>AddField\<close>

text \<open>
  C3. For every schema \<open>s\<close> of the store (a pointer \<open>Ptr a\<close> to it) and every field \<open>f\<close>,
  \<open>AddField\<close> returns the pointer it was called on and allocates no schema; the schema at
  that pointer is the one from before with \<open>f\<close> appended to \<open>Fields\<close>, which is non-nil
  afterwards also when it was nil before, and nothing else of it has changed: its
  \<open>Options\<close> are the same.
\<close>

theorem AddField_in_place:
  "a < length h \<Longrightarrow>
   \<exists>h'. AddField h (Ptr a) f = Inr (h', Ptr a) \<and>
        length h' = length h \<and>
        h' ! a = (h ! a)\<lparr>Fields := Some (elems (Fields (h ! a)) @ [f])\<rparr> \<and>
        Fields (h' ! a) = Some (elems (Fields (h ! a)) @ [f]) \<and>
        Schema.Options (h' ! a) = Schema.Options (h ! a)"
  by (simp add: AddField_valid)

theorem AddField_in_place_witness:
  "(0::nat) < length [\<lparr>Fields = None, Schema.Options = DefaultOptions\<rparr> :: unit Schema] \<and>
   (\<exists>h'. AddField [\<lparr>Fields = None, Schema.Options = DefaultOptions\<rparr>] (Ptr 0)
            (NewTagField ''tags'' :: unit Field) = Inr (h', Ptr 0) \<and>
         length h' = 1 \<and>
         h' ! 0 = \<lparr>Fields = Some [NewTagField ''tags''], Schema.Options = DefaultOptions\<rparr>)"
  using AddField_in_place
    [of 0 "[\<lparr>Fields = None, Schema.Options = DefaultOptions\<rparr> :: unit Schema]"
        "NewTagField ''tags''"]
  by simp blast

text \<open>
  C2. For every schema of the store and every finite sequence \<open>fs\<close> of fields added to it
  by a chain of \<open>AddField\<close> calls, the chain returns the pointer of the schema, whose
  fields are then the fields from before followed by \<open>fs\<close> in call order. In particular
  \<^verbatim>\<open>NewSchema(DefaultOptions).AddField(NewTextField("body")).AddField(NewNumericField("price"))\<close>
  yields two fields, first the text field \<^verbatim>\<open>body\<close>, then the numeric field \<^verbatim>\<open>price\<close>.
\<close>

theorem AddField_chain_call_order:
  "(a < length h \<longrightarrow>
      (\<exists>h'. AddField_chain h (Ptr a) fs = Inr (h', Ptr a) \<and>
            elems (Fields (h' ! a)) = elems (Fields (h ! a)) @ fs)) \<and>
   (\<exists>h2. AddField_chain (fst (NewSchema h0 DefaultOptions)) (snd (NewSchema h0 DefaultOptions))
            [NewTextField ''body'', NewNumericField ''price''] =
            Inr (h2, snd (NewSchema h0 DefaultOptions)) \<and>
         snd (NewSchema h0 DefaultOptions) = Ptr (length h0) \<and>
         length (elems (Fields (h2 ! length h0))) = 2 \<and>
         Fields (h2 ! length h0) =
           Some [\<lparr>Name = ''body'', Type = TextField, Field.Sortable = False,
                   Field.Options = nil\<rparr>,
                 \<lparr>Name = ''price'', Type = NumericField, Field.Sortable = False,
                   Field.Options = nil\<rparr>])"
proof (intro conjI impI)
  assume "a < length h"
  then show "\<exists>h'. AddField_chain h (Ptr a) fs = Inr (h', Ptr a) \<and>
                  elems (Fields (h' ! a)) = elems (Fields (h ! a)) @ fs"
    by (simp add: AddField_chain_valid)
next
  let ?h1 = "h0 @ [\<lparr>Fields = Some [], Schema.Options = Options_zero\<rparr>]"
  have new: "NewSchema h0 DefaultOptions = (?h1, Ptr (length h0))"
    by (simp add: NewSchema_def)
  have valid: "length h0 < length ?h1"
    by simp
  show "\<exists>h2. AddField_chain (fst (NewSchema h0 DefaultOptions))
                (snd (NewSchema h0 DefaultOptions))
                [NewTextField ''body'', NewNumericField ''price''] =
                Inr (h2, snd (NewSchema h0 DefaultOptions)) \<and>
             snd (NewSchema h0 DefaultOptions) = Ptr (length h0) \<and>
             length (elems (Fields (h2 ! length h0))) = 2 \<and>
             Fields (h2 ! length h0) =
               Some [\<lparr>Name = ''body'', Type = TextField, Field.Sortable = False,
                       Field.Options = nil\<rparr>,
                     \<lparr>Name = ''price'', Type = NumericField, Field.Sortable = False,
                       Field.Options = nil\<rparr>]"
    unfolding new fst_conv snd_conv AddField_chain_valid [OF valid]
    by (simp add: NewTextField_def NewNumericField_def)
qed

theorem AddField_chain_call_order_witness:
  "(0::nat) < length [\<lparr>Fields = Some [NewTagField ''tags''],
                       Schema.Options = DefaultOptions\<rparr> :: unit Schema] \<and>
   (\<exists>h'. AddField_chain
            [\<lparr>Fields = Some [NewTagField ''tags''], Schema.Options = DefaultOptions\<rparr>] (Ptr 0)
            [NewTextField ''body'', NewNumericField ''price'' :: unit Field] =
            Inr (h', Ptr 0) \<and>
         elems (Fields (h' ! 0)) =
           [NewTagField ''tags'', NewTextField ''body'', NewNumericField ''price''])"
  using AddField_chain_call_order
    [of 0 "[\<lparr>Fields = Some [NewTagField ''tags''],
              Schema.Options = DefaultOptions\<rparr> :: unit Schema]"
        "[NewTextField ''body'', NewNumericField ''price'']" "[]"]
  by (simp del: AddField_chain.simps) blast

text \<open>
  C8. For every schema of the store and every field \<open>f\<close> added to it by \<open>AddField\<close>, the
  element of \<open>Fields\<close> at the position where \<open>f\<close> was appended is \<open>f\<close> itself, equal in
  every member; and after a chain of calls the \<open>i\<close>-th field added is read back at the
  \<open>i\<close>-th position behind the fields from before.
\<close>

theorem AddField_read_back:
  "a < length h \<Longrightarrow>
   (\<exists>h'. AddField h (Ptr a) f = Inr (h', Ptr a) \<and>
         length (elems (Fields (h' ! a))) = Suc (length (elems (Fields (h ! a)))) \<and>
         elems (Fields (h' ! a)) ! length (elems (Fields (h ! a))) = f) \<and>
   (\<exists>h'. AddField_chain h (Ptr a) fs = Inr (h', Ptr a) \<and>
         length (elems (Fields (h' ! a))) = length (elems (Fields (h ! a))) + length fs \<and>
         (\<forall>i<length fs.
            elems (Fields (h' ! a)) ! (length (elems (Fields (h ! a))) + i) = fs ! i))"
  by (simp add: AddField_valid AddField_chain_valid)

theorem AddField_read_back_witness:
  "(0::nat) < length [\<lparr>Fields = Some [NewTagField ''tags''],
                       Schema.Options = DefaultOptions\<rparr> :: nat Schema] \<and>
   (\<exists>h'. AddField
            [\<lparr>Fields = Some [NewTagField ''tags''], Schema.Options = DefaultOptions\<rparr>] (Ptr 0)
            \<lparr>Name = [], Type = GeoField, Field.Sortable = True,
              Field.Options = OtherValue (7::nat)\<rparr> = Inr (h', Ptr 0) \<and>
         elems (Fields (h' ! 0)) ! 1 =
           \<lparr>Name = [], Type = GeoField, Field.Sortable = True,
             Field.Options = OtherValue (7::nat)\<rparr>) \<and>
   (\<exists>h'. AddField_chain
            [\<lparr>Fields = Some [NewTagField ''tags''], Schema.Options = DefaultOptions\<rparr>] (Ptr 0)
            [NewSortableTextField ''title'' 0x40000000,
             NewNumericField ''price'' :: nat Field] = Inr (h', Ptr 0) \<and>
         elems (Fields (h' ! 0)) ! 1 = NewSortableTextField ''title'' 0x40000000 \<and>
         elems (Fields (h' ! 0)) ! 2 = NewNumericField ''price'')"
proof -
  let ?h = "[\<lparr>Fields = Some [NewTagField ''tags''],
               Schema.Options = DefaultOptions\<rparr> :: nat Schema]"
  let ?f = "\<lparr>Name = [], Type = GeoField, Field.Sortable = True,
             Field.Options = OtherValue (7::nat)\<rparr>"
  let ?fs = "[NewSortableTextField ''title'' 0x40000000, NewNumericField ''price'' :: nat Field]"
  have valid: "0 < length ?h"
    by simp
  from AddField_read_back [OF valid, of ?f ?fs]
  obtain h1 h2 where
    one: "AddField ?h (Ptr 0) ?f = Inr (h1, Ptr 0)"
         "elems (Fields (h1 ! 0)) ! length (elems (Fields (?h ! 0))) = ?f" and
    many: "AddField_chain ?h (Ptr 0) ?fs = Inr (h2, Ptr 0)"
          "\<forall>i<length ?fs. elems (Fields (h2 ! 0)) ! (length (elems (Fields (?h ! 0))) + i) = ?fs ! i"
    by blast
  from many(2) have "elems (Fields (h2 ! 0)) ! (length (elems (Fields (?h ! 0))) + 0) = ?fs ! 0"
    and "elems (Fields (h2 ! 0)) ! (length (elems (Fields (?h ! 0))) + 1) = ?fs ! 1"
    by (simp_all del: AddField_chain.simps)
  then have "elems (Fields (h2 ! 0)) ! 1 = NewSortableTextField ''title'' 0x40000000"
    and "elems (Fields (h2 ! 0)) ! 2 = NewNumericField ''price''"
    by (simp_all add: numeral_2_eq_2)
  with one many(1) valid show ?thesis
    by (simp del: AddField_chain.simps)
qed

subsection \<open>Totality\<close>

text \<open>
  C9, as the code has it. \<open>NewSchema\<close> returns, for every store and every argument, a
  pointer to a schema of the new store. Each of the eight field constructors returns, for
  every name and every weight or options struct, the field that holds exactly what it
  was given: no name and no options value is refused or altered, whatever the separator
  byte or the flags. \<open>AddField\<close> returns for every receiver that points to a schema and
  for every field whatsoever, so no name, no combination of \<open>Type\<close> and \<open>Options\<close> and no
  separator byte is refused; adding the same field a second time succeeds as well, and a
  chain of any length succeeds. On a nil receiver \<open>AddField\<close> does not return, whatever
  the store and the field: the call panics with a nil pointer dereference.
\<close>

theorem operations_total_on_schemas:
  "(\<exists>h' b. NewSchema h0 opts = (h', Ptr b) \<and> b < length h') \<and>
   (a < length h \<longrightarrow>
      (\<exists>h1 h2. AddField h (Ptr a) f = Inr (h1, Ptr a) \<and> a < length h1 \<and>
               AddField h1 (Ptr a) f = Inr (h2, Ptr a) \<and> a < length h2) \<and>
      (\<exists>h'. AddField_chain h (Ptr a) fs = Inr (h', Ptr a) \<and> a < length h')) \<and>
   AddField h nilptr f = Inl NilPointerDereference \<and>
   (\<forall>h' :: 'v heap. AddField_chain h' nilptr (f # fs) = Inl NilPointerDereference) \<and>
   (NewTextField name :: 'v Field) =
     \<lparr>Name = name, Type = TextField, Field.Sortable = False, Field.Options = nil\<rparr> \<and>
   (NewTextFieldOptions name topts :: 'v Field) =
     \<lparr>Name = name, Type = TextField, Field.Sortable = False,
      Field.Options = TextFieldOptionsValue topts\<rparr> \<and>
   (NewSortableTextField name weight :: 'v Field) =
     \<lparr>Name = name, Type = TextField, Field.Sortable = False,
      Field.Options = TextFieldOptionsValue
        \<lparr>Weight = weight, TextFieldOptions.Sortable = True, NoStem = False,
         TextFieldOptions.NoIndex = False\<rparr>\<rparr> \<and>
   (NewTagField name :: 'v Field) =
     \<lparr>Name = name, Type = TagField, Field.Sortable = False,
      Field.Options = TagFieldOptionsValue
        \<lparr>Separator = 0x2C, TagFieldOptions.NoIndex = False,
         TagFieldOptions.Sortable = False\<rparr>\<rparr> \<and>
   (NewTagFieldOptions name gopts :: 'v Field) =
     \<lparr>Name = name, Type = TagField, Field.Sortable = False,
      Field.Options = TagFieldOptionsValue gopts\<rparr> \<and>
   (NewNumericField name :: 'v Field) =
     \<lparr>Name = name, Type = NumericField, Field.Sortable = False, Field.Options = nil\<rparr> \<and>
   (NewNumericFieldOptions name nopts :: 'v Field) =
     \<lparr>Name = name, Type = NumericField, Field.Sortable = False,
      Field.Options = NumericFieldOptionsValue nopts\<rparr> \<and>
   (NewSortableNumericField name :: 'v Field) =
     \<lparr>Name = name, Type = NumericField, Field.Sortable = False,
      Field.Options = NumericFieldOptionsValue
        \<lparr>NumericFieldOptions.Sortable = True, NumericFieldOptions.NoIndex = False\<rparr>\<rparr>"
proof -
  have new: "\<exists>h' b. NewSchema h0 opts = (h', Ptr b) \<and> b < length h'"
    by (simp add: NewSchema_def)
  have add: "a < length h \<longrightarrow>
      (\<exists>h1 h2. AddField h (Ptr a) f = Inr (h1, Ptr a) \<and> a < length h1 \<and>
               AddField h1 (Ptr a) f = Inr (h2, Ptr a) \<and> a < length h2) \<and>
      (\<exists>h'. AddField_chain h (Ptr a) fs = Inr (h', Ptr a) \<and> a < length h')"
    by (simp add: AddField_valid AddField_chain_valid)
  have nil_receiver: "AddField h nilptr f = Inl NilPointerDereference"
    by simp
  have nil_chain: "\<forall>h' :: 'v heap. AddField_chain h' nilptr (f # fs) = Inl NilPointerDereference"
    by simp
  have constructors:
    "(NewTextField name :: 'v Field) =
       \<lparr>Name = name, Type = TextField, Field.Sortable = False, Field.Options = nil\<rparr>"
    "(NewTextFieldOptions name topts :: 'v Field) =
       \<lparr>Name = name, Type = TextField, Field.Sortable = False,
        Field.Options = TextFieldOptionsValue topts\<rparr>"
    "(NewSortableTextField name weight :: 'v Field) =
       \<lparr>Name = name, Type = TextField, Field.Sortable = False,
        Field.Options = TextFieldOptionsValue
          \<lparr>Weight = weight, TextFieldOptions.Sortable = True, NoStem = False,
           TextFieldOptions.NoIndex = False\<rparr>\<rparr>"
    "(NewTagField name :: 'v Field) =
       \<lparr>Name = name, Type = TagField, Field.Sortable = False,
        Field.Options = TagFieldOptionsValue
          \<lparr>Separator = 0x2C, TagFieldOptions.NoIndex = False,
           TagFieldOptions.Sortable = False\<rparr>\<rparr>"
    "(NewTagFieldOptions name gopts :: 'v Field) =
       \<lparr>Name = name, Type = TagField, Field.Sortable = False,
        Field.Options = TagFieldOptionsValue gopts\<rparr>"
    "(NewNumericField name :: 'v Field) =
       \<lparr>Name = name, Type = NumericField, Field.Sortable = False, Field.Options = nil\<rparr>"
    "(NewNumericFieldOptions name nopts :: 'v Field) =
       \<lparr>Name = name, Type = NumericField, Field.Sortable = False,
        Field.Options = NumericFieldOptionsValue nopts\<rparr>"
    "(NewSortableNumericField name :: 'v Field) =
       \<lparr>Name = name, Type = NumericField, Field.Sortable = False,
        Field.Options = NumericFieldOptionsValue
          \<lparr>NumericFieldOptions.Sortable = True, NumericFieldOptions.NoIndex = False\<rparr>\<rparr>"
    by (simp_all add: NewTextField_def NewTextFieldOptions_def NewSortableTextField_def
          NewTagField_def NewTagFieldOptions_def NewNumericField_def
          NewNumericFieldOptions_def NewSortableNumericField_def)
  from new add nil_receiver nil_chain constructors show ?thesis
    by (intro conjI)
qed

theorem operations_total_on_schemas_witness:
  "(0::nat) < length [\<lparr>Fields = Some [NewTagField ''tags''],
                       Schema.Options = DefaultOptions\<rparr> :: unit Schema] \<and>
   (\<exists>h1 h2.
      AddField [\<lparr>Fields = Some [NewTagField ''tags''], Schema.Options = DefaultOptions\<rparr>]
        (Ptr 0)
        (NewTagFieldOptions ''tags''
           \<lparr>Separator = 0, TagFieldOptions.NoIndex = True,
            TagFieldOptions.Sortable = True\<rparr>\<lparr>Type := NumericField\<rparr>) = Inr (h1, Ptr 0) \<and>
      AddField h1 (Ptr 0)
        (NewTagFieldOptions ''tags''
           \<lparr>Separator = 0, TagFieldOptions.NoIndex = True,
            TagFieldOptions.Sortable = True\<rparr>\<lparr>Type := NumericField\<rparr> :: unit Field) =
        Inr (h2, Ptr 0)) \<and>
   AddField [\<lparr>Fields = Some [NewTagField ''tags''], Schema.Options = DefaultOptions\<rparr>]
     nilptr
     (NewTagFieldOptions ''tags''
        \<lparr>Separator = 0, TagFieldOptions.NoIndex = True,
         TagFieldOptions.Sortable = True\<rparr>\<lparr>Type := NumericField\<rparr> :: unit Field) =
     Inl NilPointerDereference \<and>
   (NewTagFieldOptions ''tags''
      \<lparr>Separator = 0, TagFieldOptions.NoIndex = True,
       TagFieldOptions.Sortable = True\<rparr> :: unit Field) =
     \<lparr>Name = ''tags'', Type = TagField, Field.Sortable = False,
      Field.Options = TagFieldOptionsValue
        \<lparr>Separator = 0, TagFieldOptions.NoIndex = True,
         TagFieldOptions.Sortable = True\<rparr>\<rparr>"
proof -
  let ?h = "[\<lparr>Fields = Some [NewTagField ''tags''],
               Schema.Options = DefaultOptions\<rparr> :: unit Schema]"
  let ?g = "\<lparr>Separator = 0, TagFieldOptions.NoIndex = True,
             TagFieldOptions.Sortable = True\<rparr>"
  let ?f = "NewTagFieldOptions ''tags'' ?g\<lparr>Type := NumericField\<rparr> :: unit Field"
  note total = operations_total_on_schemas
    [where a = 0 and h = ?h and f = ?f and fs = "[]" and name = "''tags''" and gopts = ?g]
  have valid: "0 < length ?h"
    by simp
  from total have "0 < length ?h \<longrightarrow>
      (\<exists>h1 h2. AddField ?h (Ptr 0) ?f = Inr (h1, Ptr 0) \<and> 0 < length h1 \<and>
               AddField h1 (Ptr 0) ?f = Inr (h2, Ptr 0) \<and> 0 < length h2) \<and>
      (\<exists>h'. AddField_chain ?h (Ptr 0) [] = Inr (h', Ptr 0) \<and> 0 < length h')"
    by (rule conjunct2 [THEN conjunct1])
  with valid have twice:
    "\<exists>h1 h2. AddField ?h (Ptr 0) ?f = Inr (h1, Ptr 0) \<and> AddField h1 (Ptr 0) ?f = Inr (h2, Ptr 0)"
    by blast
  from total have nil_receiver: "AddField ?h nilptr ?f = Inl NilPointerDereference"
    by (rule conjunct2 [THEN conjunct2, THEN conjunct1])
  from total have made: "(NewTagFieldOptions ''tags'' ?g :: unit Field) =
     \<lparr>Name = ''tags'', Type = TagField, Field.Sortable = False,
      Field.Options = TagFieldOptionsValue ?g\<rparr>"
    by (rule conjunct2 [THEN conjunct2, THEN conjunct2, THEN conjunct2, THEN conjunct2,
          THEN conjunct2, THEN conjunct2, THEN conjunct2, THEN conjunct1])
  from valid twice nil_receiver made show ?thesis
    by (intro conjI)
qed

text \<open>
  C9 as it is written fails for \<open>AddField\<close> on a nil receiver:
  \<^verbatim>\<open>var s *Schema; s.AddField(NewTextField("body"))\<close> panics at \<^verbatim>\<open>m.Fields\<close> and returns
  nothing.
\<close>

theorem AddField_nil_receiver_panics:
  "AddField (fst (NewSchema [] DefaultOptions)) nilptr (NewTextField ''body'' :: unit Field) =
     Inl NilPointerDereference"
  by simp

end
